theory Spec2Isabelle
  imports Complex_Main "HOL-Library.AList"
begin

section \<open>Geometry factories based on the geo interface (shapely/geometry/geo.py)\<close>

text \<open>
  The module converts between GeoJSON-like mappings and geometry objects. Its four
  functions \<open>_is_coordinates_empty\<close>, \<open>_empty_shape_for_no_coordinates\<close>, \<open>box\<close> and
  \<open>shape\<close>, and the accessor \<open>mapping\<close>, are embedded below as total HOL functions;
  every Python exception is a value of type \<open>error\<close> on the left of a sum. The leading
  underscore of the two private helpers is dropped, since an identifier cannot start
  with one.
\<close>

subsection \<open>Python values\<close>

text \<open>
  The values the functions inspect: \<open>None\<close>, booleans, numbers, strings, lists, tuples,
  numpy arrays, dicts with string keys, and objects exposing \<open>__geo_interface__\<close>.
  A numpy array of one or more dimensions is given by the sequence its iteration yields
  (\<open>PArray\<close>); a zero-dimensional array (\<open>PArray0\<close>) is an \<open>ndarray\<close> too, but has no
  length: \<open>len\<close> raises \<open>TypeError\<close> on it. An array value exists only where numpy was
  imported, so \<open>_has_numpy and isinstance(coordinates, np.ndarray)\<close> holds exactly for
  \<open>PArray\<close> and \<open>PArray0\<close>. \<open>PObj m\<close> is an object whose \<open>__geo_interface__\<close> property
  yields \<open>m\<close>. Numbers are not computed with, only copied, and are taken as reals.
  A value is a finite nesting: a list that contains itself (\<open>a = []; a.append(a)\<close>) and
  an \<open>np.matrix\<close>, whose rows are matrices again, are not among the values.
\<close>

datatype error =
    ValueError string
  | AttributeError
  | KeyError
  | TypeError
  | IndexError
  | RecursionError
  | ConstructionError

datatype pyval =
    PNone
  | PBool bool
  | PNum real
  | PStr string
  | PList "pyval list"
  | PTuple "pyval list"
  | PArray "pyval list"
  | PArray0 pyval
  | PDict "(string \<times> pyval) list"
  | PObj pyval

text \<open>
  \<open>str.lower()\<close> on strings of code points below 256, which is what \<open>char\<close> holds:
  the ASCII capitals and the Latin-1 capitals (all of 192..222 but the multiplication
  sign 215) move up by 32, every other character stays.
\<close>

definition lower_char :: "char \<Rightarrow> char" where
  "lower_char c =
     (let n = (of_char c :: nat)
      in if (65 \<le> n \<and> n \<le> 90) \<or> (192 \<le> n \<and> n \<le> 222 \<and> n \<noteq> 215)
         then char_of (n + 32) else c)"

definition lower :: "string \<Rightarrow> string" where
  "lower s = map lower_char s"

text \<open>Iteration, \<open>v[0]\<close>, \<open>v[1:]\<close> and \<open>d[k]\<close> as Python evaluates them.\<close>

fun py_iter :: "pyval \<Rightarrow> error + pyval list" where
  "py_iter (PList xs) = Inr xs"
| "py_iter (PTuple xs) = Inr xs"
| "py_iter (PArray xs) = Inr xs"
| "py_iter (PStr s) = Inr (map (\<lambda>c. PStr [c]) s)"
| "py_iter (PDict kvs) = Inr (map (\<lambda>kv. PStr (fst kv)) kvs)"
| "py_iter v = Inl TypeError"

fun py_first :: "pyval \<Rightarrow> error + pyval" where
  "py_first (PList xs) = (case xs of [] \<Rightarrow> Inl IndexError | x # _ \<Rightarrow> Inr x)"
| "py_first (PTuple xs) = (case xs of [] \<Rightarrow> Inl IndexError | x # _ \<Rightarrow> Inr x)"
| "py_first (PArray xs) = (case xs of [] \<Rightarrow> Inl IndexError | x # _ \<Rightarrow> Inr x)"
| "py_first (PArray0 v) = Inl IndexError"
| "py_first (PStr s) = (case s of [] \<Rightarrow> Inl IndexError | c # _ \<Rightarrow> Inr (PStr [c]))"
| "py_first (PDict kvs) = Inl KeyError"
| "py_first v = Inl TypeError"

fun py_rest :: "pyval \<Rightarrow> error + pyval" where
  "py_rest (PList xs) = Inr (PList (drop 1 xs))"
| "py_rest (PTuple xs) = Inr (PTuple (drop 1 xs))"
| "py_rest (PArray xs) = Inr (PArray (drop 1 xs))"
| "py_rest (PStr s) = Inr (PStr (drop 1 s))"
| "py_rest (PArray0 v) = Inl IndexError"
| "py_rest v = Inl TypeError"

definition getitem :: "(string \<times> pyval) list \<Rightarrow> string \<Rightarrow> error + pyval" where
  "getitem kvs k = (case map_of kvs k of None \<Rightarrow> Inl KeyError | Some v \<Rightarrow> Inr v)"

text \<open>A list of results is a list of values unless one of them raised; the first error wins.\<close>

fun sequence_sum :: "(error + 'a) list \<Rightarrow> error + 'a list" where
  "sequence_sum [] = Inr []"
| "sequence_sum (r # rs) =
     (case r of
        Inl e \<Rightarrow> Inl e
      | Inr x \<Rightarrow> (case sequence_sum rs of Inl e \<Rightarrow> Inl e | Inr xs \<Rightarrow> Inr (x # xs)))"

subsection \<open>\<open>_is_coordinates_empty\<close>\<close>

text \<open>
  \<open>all_coordinates_empty\<close> is \<open>all(map(_is_coordinates_empty, coordinates))\<close>: \<open>map\<close> is
  lazy and \<open>all\<close> stops at the first false element, so an element after it is never
  examined, and an exception raised by an element before it propagates.
\<close>

fun is_coordinates_empty :: "pyval \<Rightarrow> error + bool"
  and all_coordinates_empty :: "pyval list \<Rightarrow> error + bool" where
  "is_coordinates_empty PNone = Inr True"
| "is_coordinates_empty (PList xs) =
     (if length xs = 0 then Inr True else all_coordinates_empty xs)"
| "is_coordinates_empty (PTuple xs) =
     (if length xs = 0 then Inr True else all_coordinates_empty xs)"
| "is_coordinates_empty (PArray xs) =
     (if length xs = 0 then Inr True else all_coordinates_empty xs)"
| "is_coordinates_empty (PArray0 v) = Inl TypeError"
| "is_coordinates_empty (PBool b) = Inr False"
| "is_coordinates_empty (PNum r) = Inr False"
| "is_coordinates_empty (PStr s) = Inr False"
| "is_coordinates_empty (PDict kvs) = Inr False"
| "is_coordinates_empty (PObj m) = Inr False"
| "all_coordinates_empty [] = Inr True"
| "all_coordinates_empty (x # xs) =
     (case is_coordinates_empty x of
        Inl e \<Rightarrow> Inl e
      | Inr b \<Rightarrow> if b then all_coordinates_empty xs else Inr False)"

text \<open>
  The recursion on line 35 has no guard of its own: each level of nesting is one more
  nested call, and the interpreter raises \<open>RecursionError\<close> when its stack has no
  room for another. \<open>is_coordinates_empty_limited n\<close> is the function run with room
  for \<open>n\<close> nested calls; \<open>is_coordinates_empty\<close> above is what it returns when the
  room suffices.
\<close>

fun is_coordinates_empty_limited :: "nat \<Rightarrow> pyval \<Rightarrow> error + bool"
  and all_coordinates_empty_limited :: "nat \<Rightarrow> pyval list \<Rightarrow> error + bool" where
  "is_coordinates_empty_limited 0 v = Inl RecursionError"
| "is_coordinates_empty_limited (Suc n) PNone = Inr True"
| "is_coordinates_empty_limited (Suc n) (PList xs) =
     (if length xs = 0 then Inr True else all_coordinates_empty_limited n xs)"
| "is_coordinates_empty_limited (Suc n) (PTuple xs) =
     (if length xs = 0 then Inr True else all_coordinates_empty_limited n xs)"
| "is_coordinates_empty_limited (Suc n) (PArray xs) =
     (if length xs = 0 then Inr True else all_coordinates_empty_limited n xs)"
| "is_coordinates_empty_limited (Suc n) (PArray0 v) = Inl TypeError"
| "is_coordinates_empty_limited (Suc n) (PBool b) = Inr False"
| "is_coordinates_empty_limited (Suc n) (PNum r) = Inr False"
| "is_coordinates_empty_limited (Suc n) (PStr s) = Inr False"
| "is_coordinates_empty_limited (Suc n) (PDict kvs) = Inr False"
| "is_coordinates_empty_limited (Suc n) (PObj m) = Inr False"
| "all_coordinates_empty_limited n [] = Inr True"
| "all_coordinates_empty_limited n (x # xs) =
     (case is_coordinates_empty_limited n x of
        Inl e \<Rightarrow> Inl e
      | Inr b \<Rightarrow> if b then all_coordinates_empty_limited n xs else Inr False)"

subsection \<open>Geometry objects\<close>

text \<open>
  The seven geometry classes are imported by the module and defined elsewhere. A
  geometry is its kind together with the coordinates it owns: a coordinate tuple is a
  list of numbers, the empty instance of a kind owns none.
\<close>

type_synonym coord = "real list"

text \<open>
  Modelled from the spec: the geometry value objects (Point, LineString, Polygon,
  MultiPoint, MultiLineString, MultiPolygon, GeometryCollection), each owning a copy
  of its coordinates; a polygon has an exterior ring and interior rings.
\<close>

datatype geometry =
    Point coord
  | LineString "coord list"
  | Polygon "coord list" "coord list list"
  | MultiPoint "coord list"
  | MultiLineString "coord list list"
  | MultiPolygon "(coord list \<times> coord list list) list"
  | GeometryCollection "geometry list"

text \<open>Modelled from the spec: the kind name of a geometry (its \<open>type\<close> member).\<close>

fun geom_type_of :: "geometry \<Rightarrow> string" where
  "geom_type_of (Point c) = ''Point''"
| "geom_type_of (LineString l) = ''LineString''"
| "geom_type_of (Polygon e hs) = ''Polygon''"
| "geom_type_of (MultiPoint cs) = ''MultiPoint''"
| "geom_type_of (MultiLineString ls) = ''MultiLineString''"
| "geom_type_of (MultiPolygon ps) = ''MultiPolygon''"
| "geom_type_of (GeometryCollection gs) = ''GeometryCollection''"

text \<open>
  Modelled from the spec: the coordinate data a geometry carries, as one sequence of
  coordinate tuples; an empty geometry is one that carries none.
\<close>

fun coordinates_of :: "geometry \<Rightarrow> coord list" where
  "coordinates_of (Point c) = (if c = [] then [] else [c])"
| "coordinates_of (LineString l) = l"
| "coordinates_of (Polygon e hs) = e @ concat hs"
| "coordinates_of (MultiPoint cs) = cs"
| "coordinates_of (MultiLineString ls) = concat ls"
| "coordinates_of (MultiPolygon ps) = concat (map (\<lambda>p. fst p @ concat (snd p)) ps)"
| "coordinates_of (GeometryCollection gs) = concat (map coordinates_of gs)"

definition is_empty :: "geometry \<Rightarrow> bool" where
  "is_empty g = (coordinates_of g = [])"

text \<open>
  Modelled from the spec: reading coordinates in a constructor. A coordinate is a
  numeric tuple of 2 or 3 values; what a constructor raises on anything else is not
  specified and is the single error \<open>ConstructionError\<close>.
\<close>

fun as_number :: "pyval \<Rightarrow> error + real" where
  "as_number (PNum r) = Inr r"
| "as_number v = Inl ConstructionError"

definition as_coord :: "pyval \<Rightarrow> error + coord" where
  "as_coord v =
     (case py_iter v of
        Inl e \<Rightarrow> Inl ConstructionError
      | Inr xs \<Rightarrow>
          if length xs = 2 \<or> length xs = 3
          then sequence_sum (map as_number xs)
          else Inl ConstructionError)"

definition as_coords :: "pyval \<Rightarrow> error + coord list" where
  "as_coords v =
     (case py_iter v of
        Inl e \<Rightarrow> Inl ConstructionError
      | Inr xs \<Rightarrow> sequence_sum (map as_coord xs))"

text \<open>
  Modelled from the spec: ring closure is the polygon constructor's responsibility; a
  ring whose last point differs from its first gets the first point appended.
\<close>

definition close_ring :: "coord list \<Rightarrow> coord list" where
  "close_ring r = (if r \<noteq> [] \<and> hd r \<noteq> last r then r @ [hd r] else r)"

definition as_ring :: "pyval \<Rightarrow> error + coord list" where
  "as_ring v = (case as_coords v of Inl e \<Rightarrow> Inl e | Inr r \<Rightarrow> Inr (close_ring r))"

definition as_rings :: "pyval \<Rightarrow> error + coord list list" where
  "as_rings v =
     (case py_iter v of
        Inl e \<Rightarrow> Inl ConstructionError
      | Inr xs \<Rightarrow> sequence_sum (map as_ring xs))"

text \<open>
  Modelled from the spec: the constructor of Point, from a single numeric tuple;
  without an argument it gives the empty point.
\<close>

fun new_Point :: "pyval option \<Rightarrow> error + geometry" where
  "new_Point None = Inr (Point [])"
| "new_Point (Some c) = (case as_coord c of Inl e \<Rightarrow> Inl e | Inr p \<Rightarrow> Inr (Point p))"

text \<open>
  Modelled from the spec: the constructor of LineString, from a sequence of coordinate
  tuples; without an argument it gives the empty line string.
\<close>

fun new_LineString :: "pyval option \<Rightarrow> error + geometry" where
  "new_LineString None = Inr (LineString [])"
| "new_LineString (Some c) =
     (case as_coords c of Inl e \<Rightarrow> Inl e | Inr ps \<Rightarrow> Inr (LineString ps))"

text \<open>
  Modelled from the spec: the exterior and interior rings a polygon is made of, from
  separate exterior and (optional) interior ring arguments.
\<close>

definition polygon_parts :: "pyval \<Rightarrow> pyval option \<Rightarrow> error + coord list \<times> coord list list" where
  "polygon_parts shell holes =
     (case as_ring shell of
        Inl e \<Rightarrow> Inl e
      | Inr ext \<Rightarrow>
          (case holes of
             None \<Rightarrow> Inr (ext, [])
           | Some hs \<Rightarrow>
               (case as_rings hs of Inl e \<Rightarrow> Inl e | Inr ints \<Rightarrow> Inr (ext, ints))))"

text \<open>
  Modelled from the spec: the constructor of Polygon; without arguments it gives the
  empty polygon.
\<close>

fun new_Polygon :: "pyval option \<Rightarrow> pyval option \<Rightarrow> error + geometry" where
  "new_Polygon None holes = Inr (Polygon [] [])"
| "new_Polygon (Some shell) holes =
     (case polygon_parts shell holes of
        Inl e \<Rightarrow> Inl e
      | Inr p \<Rightarrow> Inr (Polygon (fst p) (snd p)))"

text \<open>
  Modelled from the spec: the constructor of MultiPoint, from a sequence of coordinate
  tuples; without an argument it gives the empty multi-point.
\<close>

fun new_MultiPoint :: "pyval option \<Rightarrow> error + geometry" where
  "new_MultiPoint None = Inr (MultiPoint [])"
| "new_MultiPoint (Some c) =
     (case as_coords c of Inl e \<Rightarrow> Inl e | Inr ps \<Rightarrow> Inr (MultiPoint ps))"

text \<open>
  Modelled from the spec: the constructor of MultiLineString, from a sequence of
  line-coordinate sequences; without an argument it gives the empty multi-line.
\<close>

fun new_MultiLineString :: "pyval option \<Rightarrow> error + geometry" where
  "new_MultiLineString None = Inr (MultiLineString [])"
| "new_MultiLineString (Some c) =
     (case py_iter c of
        Inl e \<Rightarrow> Inl ConstructionError
      | Inr ls \<Rightarrow>
          (case sequence_sum (map as_coords ls) of
             Inl e \<Rightarrow> Inl e
           | Inr lines \<Rightarrow> Inr (MultiLineString lines)))"

text \<open>
  Modelled from the spec: one polygon of GeoJSON-style nesting, the exterior ring
  first and the interior rings after it.
\<close>

definition geojson_polygon :: "pyval \<Rightarrow> error + coord list \<times> coord list list" where
  "geojson_polygon p =
     (case py_first p of
        Inl e \<Rightarrow> Inl ConstructionError
      | Inr shell \<Rightarrow>
          (case py_rest p of
             Inl e \<Rightarrow> Inl ConstructionError
           | Inr holes \<Rightarrow> polygon_parts shell (Some holes)))"

text \<open>
  Modelled from the spec: the constructor of MultiPolygon in its GeoJSON mode
  (\<open>context_type='geojson'\<close>), which is also what the call without arguments uses;
  without an argument it gives the empty multi-polygon.
\<close>

fun new_MultiPolygon :: "pyval option \<Rightarrow> error + geometry" where
  "new_MultiPolygon None = Inr (MultiPolygon [])"
| "new_MultiPolygon (Some c) =
     (case py_iter c of
        Inl e \<Rightarrow> Inl ConstructionError
      | Inr ps \<Rightarrow>
          (case sequence_sum (map geojson_polygon ps) of
             Inl e \<Rightarrow> Inl e
           | Inr polys \<Rightarrow> Inr (MultiPolygon polys)))"

text \<open>Modelled from the spec: the constructor of GeometryCollection, from geometries.\<close>

definition new_GeometryCollection :: "geometry list \<Rightarrow> error + geometry" where
  "new_GeometryCollection geoms = Inr (GeometryCollection geoms)"

text \<open>
  Modelled from the spec: the \<open>__geo_interface__\<close> of a geometry, the mapping of its
  kind name and its coordinates as a tree of tuples, and for a collection the list of
  its members' mappings under \<open>geometries\<close>.
\<close>

definition coord_tuple :: "coord \<Rightarrow> pyval" where
  "coord_tuple c = PTuple (map PNum c)"

definition coords_tuple :: "coord list \<Rightarrow> pyval" where
  "coords_tuple cs = PTuple (map coord_tuple cs)"

definition polygon_tuple :: "coord list \<times> coord list list \<Rightarrow> pyval" where
  "polygon_tuple p = PTuple (coords_tuple (fst p) # map coords_tuple (snd p))"

fun geo_interface :: "geometry \<Rightarrow> pyval" where
  "geo_interface (Point c) =
     PDict [(''type'', PStr ''Point''), (''coordinates'', coord_tuple c)]"
| "geo_interface (LineString l) =
     PDict [(''type'', PStr ''LineString''), (''coordinates'', coords_tuple l)]"
| "geo_interface (Polygon e hs) =
     PDict [(''type'', PStr ''Polygon''), (''coordinates'', polygon_tuple (e, hs))]"
| "geo_interface (MultiPoint cs) =
     PDict [(''type'', PStr ''MultiPoint''), (''coordinates'', coords_tuple cs)]"
| "geo_interface (MultiLineString ls) =
     PDict [(''type'', PStr ''MultiLineString''),
            (''coordinates'', PTuple (map coords_tuple ls))]"
| "geo_interface (MultiPolygon ps) =
     PDict [(''type'', PStr ''MultiPolygon''),
            (''coordinates'', PTuple (map polygon_tuple ps))]"
| "geo_interface (GeometryCollection gs) =
     PDict [(''type'', PStr ''GeometryCollection''),
            (''geometries'', PList (map geo_interface gs))]"

text \<open>Modelled from the spec: a geometry as a Python object exposing the capability.\<close>

definition geometry_object :: "geometry \<Rightarrow> pyval" where
  "geometry_object g = PObj (geo_interface g)"

subsection \<open>\<open>_empty_shape_for_no_coordinates\<close>\<close>

definition empty_shape_for_no_coordinates :: "string \<Rightarrow> error + geometry" where
  "empty_shape_for_no_coordinates geom_type =
     (if geom_type = ''point'' then new_Point None
      else if geom_type = ''multipoint'' then new_MultiPoint None
      else if geom_type = ''linestring'' then new_LineString None
      else if geom_type = ''multilinestring'' then new_MultiLineString None
      else if geom_type = ''polygon'' then new_Polygon None None
      else if geom_type = ''multipolygon'' then new_MultiPolygon None
      else Inl (ValueError (''Unknown geometry type: '' @ geom_type)))"

subsection \<open>\<open>box\<close>\<close>

text \<open>
  \<open>box_coords\<close> is the local variable \<open>coords\<close> when the constructor is called:
  the four corners, reversed (\<open>coords[::-1]\<close>) when \<open>ccw\<close> is false.
\<close>

definition box_coords :: "real \<Rightarrow> real \<Rightarrow> real \<Rightarrow> real \<Rightarrow> bool \<Rightarrow> pyval list" where
  "box_coords minx miny maxx maxy ccw =
     (let coords = [PTuple [PNum maxx, PNum miny], PTuple [PNum maxx, PNum maxy],
                    PTuple [PNum minx, PNum maxy], PTuple [PNum minx, PNum miny]]
      in if \<not> ccw then rev coords else coords)"

definition box :: "real \<Rightarrow> real \<Rightarrow> real \<Rightarrow> real \<Rightarrow> bool \<Rightarrow> error + geometry" where
  "box minx miny maxx maxy ccw =
     new_Polygon (Some (PList (box_coords minx miny maxx maxy ccw))) None"

subsection \<open>\<open>shape\<close>\<close>

text \<open>
  \<open>ob\<close> is the context's \<open>__geo_interface__\<close> when it has one and the context itself
  otherwise. \<open>ob.get("type").lower()\<close> needs \<open>ob\<close> to have \<open>get\<close> (a dict) and the
  value under \<open>type\<close> to have \<open>lower\<close> (a string): a missing key gives \<open>None\<close>, and
  \<open>None.lower\<close> is an \<open>AttributeError\<close>. \<open>ob["coordinates"]\<close> raises \<open>KeyError\<close> on a
  missing key, and \<open>ob.get("geometries", [])\<close> is the empty list on one.
\<close>

function shape :: "pyval \<Rightarrow> error + geometry" where
  "shape context =
     (let ob = (case context of PObj m \<Rightarrow> m | _ \<Rightarrow> context) in
      case ob of
        PDict kvs \<Rightarrow>
          (case map_of kvs ''type'' of
             Some (PStr t) \<Rightarrow>
               (let geom_type = lower t in
                case (case map_of kvs ''coordinates'' of
                        None \<Rightarrow> Inr False
                      | Some c \<Rightarrow> is_coordinates_empty c) of
                  Inl e \<Rightarrow> Inl e
                | Inr no_coordinates \<Rightarrow>
                    if no_coordinates then empty_shape_for_no_coordinates geom_type
                    else if geom_type = ''point'' then
                      (case getitem kvs ''coordinates'' of
                         Inl e \<Rightarrow> Inl e
                       | Inr c \<Rightarrow> new_Point (Some c))
                    else if geom_type = ''linestring'' then
                      (case getitem kvs ''coordinates'' of
                         Inl e \<Rightarrow> Inl e
                       | Inr c \<Rightarrow> new_LineString (Some c))
                    else if geom_type = ''polygon'' then
                      (case getitem kvs ''coordinates'' of
                         Inl e \<Rightarrow> Inl e
                       | Inr c \<Rightarrow>
                           (case py_first c of
                              Inl e \<Rightarrow> Inl e
                            | Inr shell \<Rightarrow>
                                (case py_rest c of
                                   Inl e \<Rightarrow> Inl e
                                 | Inr holes \<Rightarrow> new_Polygon (Some shell) (Some holes))))
                    else if geom_type = ''multipoint'' then
                      (case getitem kvs ''coordinates'' of
                         Inl e \<Rightarrow> Inl e
                       | Inr c \<Rightarrow> new_MultiPoint (Some c))
                    else if geom_type = ''multilinestring'' then
                      (case getitem kvs ''coordinates'' of
                         Inl e \<Rightarrow> Inl e
                       | Inr c \<Rightarrow> new_MultiLineString (Some c))
                    else if geom_type = ''multipolygon'' then
                      (case getitem kvs ''coordinates'' of
                         Inl e \<Rightarrow> Inl e
                       | Inr c \<Rightarrow> new_MultiPolygon (Some c))
                    else if geom_type = ''geometrycollection'' then
                      (case py_iter (case map_of kvs ''geometries'' of
                                       None \<Rightarrow> PList []
                                     | Some v \<Rightarrow> v) of
                         Inl e \<Rightarrow> Inl e
                       | Inr gs \<Rightarrow>
                           (case sequence_sum (map shape gs) of
                              Inl e \<Rightarrow> Inl e
                            | Inr geoms \<Rightarrow> new_GeometryCollection geoms))
                    else Inl (ValueError (''Unknown geometry type: '' @ geom_type)))
           | _ \<Rightarrow> Inl AttributeError)
      | _ \<Rightarrow> Inl AttributeError)"
  by pat_completeness auto
termination
proof (relation "measure size")
  show "wf (measure (size :: pyval \<Rightarrow> nat))"
    by simp
next
  fix c ob :: pyval and kvs gs g
  assume ob: "ob = (case c of PObj m \<Rightarrow> m | _ \<Rightarrow> c)"
    and dict: "ob = PDict kvs"
    and iter: "py_iter (case map_of kvs ''geometries'' of None \<Rightarrow> PList [] | Some v \<Rightarrow> v) = Inr gs"
    and mem: "g \<in> set gs"
  have member: "size y \<le> size_list size ys" if "y \<in> set ys" for y :: pyval and ys
    using that by (induction ys) auto
  have looked_up: "size v < size (PDict ps)" if "map_of ps k = Some v"
    for ps :: "(string \<times> pyval) list" and k v
    using that by (induction ps) (auto split: if_splits)
  have iterated: "size y \<le> size v" if "py_iter v = Inr ys" "y \<in> set ys" for v ys y
    using that by (cases v) (auto dest: member)
  have "size g < size ob"
  proof (cases "map_of kvs ''geometries''")
    case None
    with iter mem show ?thesis by simp
  next
    case (Some v)
    with iter mem have "size g \<le> size v"
      by (auto dest: iterated)
    moreover from Some have "size v < size (PDict kvs)"
      by (rule looked_up)
    ultimately show ?thesis
      using dict by simp
  qed
  moreover from ob have "size ob \<le> size c"
    by (cases c) auto
  ultimately show "(g, c) \<in> measure size"
    by simp
qed

subsection \<open>\<open>mapping\<close>\<close>

text \<open>
  \<open>mapping(ob)\<close> is \<open>ob.__geo_interface__\<close>, an \<open>AttributeError\<close> on a value without
  the attribute.
\<close>

fun mapping :: "pyval \<Rightarrow> error + pyval" where
  "mapping (PObj m) = Inr m"
| "mapping v = Inl AttributeError"

subsection \<open>Well-formed geometries\<close>

text \<open>
  Modelled from the spec: the values a geometry object can take. A coordinate tuple has
  2 or 3 numbers, a ring is closed, a polygon without exterior has no interior rings.
  The empty geometry of a kind is the canonical zero-coordinate instance: a multi-part
  geometry with parts has a part that is not empty.
\<close>

definition wf_coord :: "coord \<Rightarrow> bool" where
  "wf_coord c = (length c = 2 \<or> length c = 3)"

definition wf_line :: "coord list \<Rightarrow> bool" where
  "wf_line l = list_all wf_coord l"

definition wf_ring :: "coord list \<Rightarrow> bool" where
  "wf_ring r = (r \<noteq> [] \<and> hd r = last r \<and> list_all wf_coord r)"

definition wf_polygon :: "coord list \<times> coord list list \<Rightarrow> bool" where
  "wf_polygon p =
     (if fst p = [] then snd p = [] else wf_ring (fst p) \<and> list_all wf_ring (snd p))"

fun wf_geometry :: "geometry \<Rightarrow> bool" where
  "wf_geometry (Point c) = (c = [] \<or> wf_coord c)"
| "wf_geometry (LineString l) = wf_line l"
| "wf_geometry (Polygon e hs) = wf_polygon (e, hs)"
| "wf_geometry (MultiPoint cs) = list_all wf_coord cs"
| "wf_geometry (MultiLineString ls) =
     (list_all wf_line ls \<and> (ls = [] \<or> list_ex (\<lambda>l. l \<noteq> []) ls))"
| "wf_geometry (MultiPolygon ps) =
     (list_all wf_polygon ps \<and> (ps = [] \<or> list_ex (\<lambda>p. fst p \<noteq> []) ps))"
| "wf_geometry (GeometryCollection gs) = list_all wf_geometry gs"

subsection \<open>Vocabulary of the properties\<close>

text \<open>
  \<open>isinstance(v, (list, tuple))\<close>, \<open>isinstance(v, np.ndarray)\<close>, the values that have a
  length (lists, tuples and arrays of one or more dimensions) with their elements, and
  the values no zero-dimensional array is nested in.
\<close>

fun is_list_or_tuple :: "pyval \<Rightarrow> bool" where
  "is_list_or_tuple (PList xs) = True"
| "is_list_or_tuple (PTuple xs) = True"
| "is_list_or_tuple v = False"

fun is_numpy_array :: "pyval \<Rightarrow> bool" where
  "is_numpy_array (PArray xs) = True"
| "is_numpy_array (PArray0 x) = True"
| "is_numpy_array v = False"

fun is_sequence :: "pyval \<Rightarrow> bool" where
  "is_sequence (PList xs) = True"
| "is_sequence (PTuple xs) = True"
| "is_sequence (PArray xs) = True"
| "is_sequence v = False"

fun elements :: "pyval \<Rightarrow> pyval list" where
  "elements (PList xs) = xs"
| "elements (PTuple xs) = xs"
| "elements (PArray xs) = xs"
| "elements v = []"

fun unsized_free :: "pyval \<Rightarrow> bool" where
  "unsized_free (PArray0 x) = False"
| "unsized_free (PList xs) = list_all unsized_free xs"
| "unsized_free (PTuple xs) = list_all unsized_free xs"
| "unsized_free (PArray xs) = list_all unsized_free xs"
| "unsized_free v = True"

text \<open>
  How deep the lists, tuples and arrays of a value are nested: a value that is not a
  sequence has depth 0, a sequence one more than the deepest of its elements.
\<close>

fun nesting_depth :: "pyval \<Rightarrow> nat"
  and max_nesting_depth :: "pyval list \<Rightarrow> nat" where
  "nesting_depth (PList xs) = Suc (max_nesting_depth xs)"
| "nesting_depth (PTuple xs) = Suc (max_nesting_depth xs)"
| "nesting_depth (PArray xs) = Suc (max_nesting_depth xs)"
| "nesting_depth (PNone) = 0"
| "nesting_depth (PBool b) = 0"
| "nesting_depth (PNum r) = 0"
| "nesting_depth (PStr s) = 0"
| "nesting_depth (PArray0 v) = 0"
| "nesting_depth (PDict kvs) = 0"
| "nesting_depth (PObj m) = 0"
| "max_nesting_depth [] = 0"
| "max_nesting_depth (x # xs) = max (nesting_depth x) (max_nesting_depth xs)"

text \<open>The seven kind names \<open>shape\<close> dispatches on, and the six that carry coordinates.\<close>

definition kind_names :: "string list" where
  "kind_names = [''point'', ''linestring'', ''polygon'', ''multipoint'',
                 ''multilinestring'', ''multipolygon'', ''geometrycollection'']"

definition coordinate_kind_names :: "string list" where
  "coordinate_kind_names = [''point'', ''linestring'', ''polygon'', ''multipoint'',
                            ''multilinestring'', ''multipolygon'']"

text \<open>
  The type-specific construction \<open>shape\<close> performs for a coordinate-bearing kind once
  the empty-coordinates test has failed.
\<close>

definition construct_from_coordinates :: "string \<Rightarrow> pyval \<Rightarrow> error + geometry" where
  "construct_from_coordinates geom_type c =
     (if geom_type = ''point'' then new_Point (Some c)
      else if geom_type = ''linestring'' then new_LineString (Some c)
      else if geom_type = ''polygon'' then
        (case py_first c of
           Inl e \<Rightarrow> Inl e
         | Inr shell \<Rightarrow>
             (case py_rest c of
                Inl e \<Rightarrow> Inl e
              | Inr holes \<Rightarrow> new_Polygon (Some shell) (Some holes)))
      else if geom_type = ''multipoint'' then new_MultiPoint (Some c)
      else if geom_type = ''multilinestring'' then new_MultiLineString (Some c)
      else new_MultiPolygon (Some c))"

section \<open>Properties\<close>

subsection \<open>Auxiliary facts\<close>

text \<open>
  \<open>shape\<close> has a single defining equation, which is unfolded where it is needed and
  not by the simplifier.
\<close>

declare shape.simps [simp del]

lemma lower_kind_names:
  "lower ''point'' = ''point''" "lower ''linestring'' = ''linestring''"
  "lower ''polygon'' = ''polygon''" "lower ''multipoint'' = ''multipoint''"
  "lower ''multilinestring'' = ''multilinestring''"
  "lower ''multipolygon'' = ''multipolygon''"
  "lower ''geometrycollection'' = ''geometrycollection''"
  by code_simp+

lemma lower_class_names:
  "lower ''Point'' = ''point''" "lower ''LineString'' = ''linestring''"
  "lower ''Polygon'' = ''polygon''" "lower ''MultiPoint'' = ''multipoint''"
  "lower ''MultiLineString'' = ''multilinestring''"
  "lower ''MultiPolygon'' = ''multipolygon''"
  "lower ''GeometryCollection'' = ''geometrycollection''"
  by code_simp+

lemma all_coordinates_empty_True:
  "all_coordinates_empty xs = Inr True \<longleftrightarrow> list_all (\<lambda>x. is_coordinates_empty x = Inr True) xs"
  by (induction xs) (auto split: sum.splits)

lemma is_coordinates_empty_total:
  "unsized_free v \<Longrightarrow> \<exists>b. is_coordinates_empty v = Inr b"
  "list_all unsized_free xs \<Longrightarrow> \<exists>b. all_coordinates_empty xs = Inr b"
  by (induction v and xs rule: is_coordinates_empty_all_coordinates_empty.induct)
     (auto split: sum.splits)

lemma enough_depth:
  "nesting_depth v < n \<Longrightarrow> is_coordinates_empty_limited n v = is_coordinates_empty v"
  "max_nesting_depth xs < n \<Longrightarrow> all_coordinates_empty_limited n xs = all_coordinates_empty xs"
  by (induction n v and n xs
      rule: is_coordinates_empty_limited_all_coordinates_empty_limited.induct)
     (auto split: sum.splits)

lemma shape_PObj: "shape (PObj (PDict kvs)) = shape (PDict kvs)"
  by (simp add: shape.simps [of "PObj (PDict kvs)"] shape.simps [of "PDict kvs"])

lemma shape_no_type_string:
  assumes "\<And>t. map_of kvs ''type'' \<noteq> Some (PStr t)"
  shows "shape (PDict kvs) = Inl AttributeError"
  using assms
  by (subst shape.simps) (auto split: option.splits pyval.splits)

lemma shape_short_circuit:
  assumes "map_of kvs ''type'' = Some (PStr t)"
    and "map_of kvs ''coordinates'' = Some c"
    and "is_coordinates_empty c = Inr True"
  shows "shape (PDict kvs) = empty_shape_for_no_coordinates (lower t)"
  using assms by (subst shape.simps) simp

lemma shape_construct:
  assumes "map_of kvs ''type'' = Some (PStr t)"
    and "map_of kvs ''coordinates'' = Some c"
    and "is_coordinates_empty c = Inr False"
    and "lower t \<in> set coordinate_kind_names"
  shows "shape (PDict kvs) = construct_from_coordinates (lower t) c"
  using assms
  by (subst shape.simps)
     (auto simp: coordinate_kind_names_def construct_from_coordinates_def getitem_def)

lemma shape_collection:
  assumes "map_of kvs ''type'' = Some (PStr t)"
    and "lower t = ''geometrycollection''"
    and "map_of kvs ''coordinates'' = None
         \<or> (\<exists>c. map_of kvs ''coordinates'' = Some c \<and> is_coordinates_empty c = Inr False)"
  shows "shape (PDict kvs) =
           (case py_iter (case map_of kvs ''geometries'' of None \<Rightarrow> PList [] | Some v \<Rightarrow> v) of
              Inl e \<Rightarrow> Inl e
            | Inr gs \<Rightarrow>
                (case sequence_sum (map shape gs) of
                   Inl e \<Rightarrow> Inl e
                 | Inr geoms \<Rightarrow> Inr (GeometryCollection geoms)))"
  using assms
  by (subst shape.simps) (auto simp: new_GeometryCollection_def split: sum.splits)

lemma shape_unknown_type:
  assumes "map_of kvs ''type'' = Some (PStr t)"
    and "lower t \<notin> set kind_names"
    and "map_of kvs ''coordinates'' = None
         \<or> (\<exists>c. map_of kvs ''coordinates'' = Some c \<and> is_coordinates_empty c = Inr False)"
  shows "shape (PDict kvs) = Inl (ValueError (''Unknown geometry type: '' @ lower t))"
  using assms
  by (subst shape.simps) (auto simp: kind_names_def)

lemma sequence_sum_all2:
  "list_all2 (\<lambda>x r. f x = Inr r) xs rs \<Longrightarrow> sequence_sum (map f xs) = Inr rs"
  by (induction xs rs rule: list_all2_induct) simp_all

lemma lookup_update_type:
  "map_of (AList.update ''type'' v kvs) ''type'' = Some v"
  "map_of (AList.update ''type'' v kvs) ''coordinates'' = map_of kvs ''coordinates''"
  "map_of (AList.update ''type'' v kvs) ''geometries'' = map_of kvs ''geometries''"
  "getitem (AList.update ''type'' v kvs) ''coordinates'' = getitem kvs ''coordinates''"
  by (simp_all add: update_conv getitem_def)

text \<open>
  Reading back what \<open>__geo_interface__\<close> wrote: the constructors recover the
  coordinates of a well-formed geometry from its tuple tree, and the tuple tree is empty
  exactly when the geometry has no coordinates.
\<close>

lemma sequence_sum_map_Inr:
  "(\<And>x. x \<in> set xs \<Longrightarrow> f (h x) = Inr x) \<Longrightarrow> sequence_sum (map (f \<circ> h) xs) = Inr xs"
  by (induction xs) simp_all

lemma as_coord_tuple: "wf_coord c \<Longrightarrow> as_coord (coord_tuple c) = Inr c"
  by (simp add: wf_coord_def as_coord_def coord_tuple_def sequence_sum_map_Inr)

lemma as_coords_tuple: "list_all wf_coord cs \<Longrightarrow> as_coords (coords_tuple cs) = Inr cs"
  by (simp add: as_coords_def coords_tuple_def sequence_sum_map_Inr as_coord_tuple
      list_all_iff)

lemma coord_tuple_not_empty: "wf_coord c \<Longrightarrow> is_coordinates_empty (coord_tuple c) = Inr False"
  by (cases c) (auto simp: wf_coord_def coord_tuple_def)

lemma coords_tuple_empty:
  "list_all wf_coord cs \<Longrightarrow> is_coordinates_empty (coords_tuple cs) = Inr (cs = [])"
  by (cases cs) (simp_all add: coords_tuple_def coord_tuple_not_empty)

lemma as_ring_tuple: "r = [] \<or> wf_ring r \<Longrightarrow> as_ring (coords_tuple r) = Inr r"
  by (auto simp: as_ring_def wf_ring_def as_coords_tuple close_ring_def)

lemma as_rings_tuple:
  "list_all wf_ring hs \<Longrightarrow> as_rings (PTuple (map coords_tuple hs)) = Inr hs"
  by (simp add: as_rings_def sequence_sum_map_Inr as_ring_tuple list_all_iff)

lemma as_rings_nil: "as_rings (PTuple []) = Inr []"
  by (simp add: as_rings_def)

lemma polygon_parts_tuple:
  "wf_polygon p \<Longrightarrow>
   polygon_parts (coords_tuple (fst p)) (Some (PTuple (map coords_tuple (snd p)))) = Inr p"
  by (cases p) (auto simp: wf_polygon_def polygon_parts_def as_ring_tuple as_rings_tuple
      as_rings_nil split: if_splits)

lemma geojson_polygon_tuple: "wf_polygon p \<Longrightarrow> geojson_polygon (polygon_tuple p) = Inr p"
  by (simp add: geojson_polygon_def polygon_tuple_def polygon_parts_tuple)

lemma polygon_tuple_empty:
  "wf_polygon p \<Longrightarrow> is_coordinates_empty (polygon_tuple p) = Inr (fst p = [])"
  by (auto simp: wf_polygon_def polygon_tuple_def wf_ring_def coords_tuple_empty
      split: if_splits)

lemma all_coordinates_empty_map:
  "(\<And>x. x \<in> set xs \<Longrightarrow> is_coordinates_empty (h x) = Inr (e x)) \<Longrightarrow>
   all_coordinates_empty (map h xs) = Inr (list_all e xs)"
  by (induction xs) simp_all

lemma lines_tuple_empty:
  "list_all wf_line ls \<Longrightarrow>
   is_coordinates_empty (PTuple (map coords_tuple ls)) = Inr (list_all (\<lambda>l. l = []) ls)"
  by (simp add: all_coordinates_empty_map [where e = "\<lambda>l. l = []"] coords_tuple_empty
      wf_line_def list_all_iff)

lemma polygons_tuple_empty:
  "list_all wf_polygon ps \<Longrightarrow>
   is_coordinates_empty (PTuple (map polygon_tuple ps)) = Inr (list_all (\<lambda>p. fst p = []) ps)"
  by (simp add: all_coordinates_empty_map [where e = "\<lambda>p. fst p = []"] polygon_tuple_empty
      list_all_iff)

lemma shape_geo_interface: "wf_geometry g \<Longrightarrow> shape (geo_interface g) = Inr g"
proof (induction g)
  case (Point c)
  show ?case
  proof (cases "c = []")
    case True
    then show ?thesis
      using shape_short_circuit
        [of "[(''type'', PStr ''Point''), (''coordinates'', coord_tuple c)]"
            "''Point''" "coord_tuple c"]
      by (simp add: coord_tuple_def lower_class_names empty_shape_for_no_coordinates_def)
  next
    case False
    with Point have "wf_coord c"
      by simp
    then show ?thesis
      using shape_construct
        [of "[(''type'', PStr ''Point''), (''coordinates'', coord_tuple c)]"
            "''Point''" "coord_tuple c"]
      by (simp add: coord_tuple_not_empty as_coord_tuple lower_class_names
          coordinate_kind_names_def construct_from_coordinates_def)
  qed
next
  case (LineString l)
  then have wf: "list_all wf_coord l"
    by (simp add: wf_line_def)
  show ?case
  proof (cases "l = []")
    case True
    then show ?thesis
      using shape_short_circuit
        [of "[(''type'', PStr ''LineString''), (''coordinates'', coords_tuple l)]"
            "''LineString''" "coords_tuple l"]
      by (simp add: coords_tuple_def lower_class_names empty_shape_for_no_coordinates_def)
  next
    case False
    with wf show ?thesis
      using shape_construct
        [of "[(''type'', PStr ''LineString''), (''coordinates'', coords_tuple l)]"
            "''LineString''" "coords_tuple l"]
      by (simp add: coords_tuple_empty as_coords_tuple lower_class_names
          coordinate_kind_names_def construct_from_coordinates_def)
  qed
next
  case (Polygon e hs)
  then have wf: "wf_polygon (e, hs)"
    by simp
  show ?case
  proof (cases "e = []")
    case True
    with wf have "hs = []"
      by (simp add: wf_polygon_def)
    with True wf show ?thesis
      using shape_short_circuit
        [of "[(''type'', PStr ''Polygon''), (''coordinates'', polygon_tuple (e, hs))]"
            "''Polygon''" "polygon_tuple (e, hs)"]
      by (simp add: polygon_tuple_empty lower_class_names empty_shape_for_no_coordinates_def)
  next
    case False
    with wf show ?thesis
      using shape_construct
        [of "[(''type'', PStr ''Polygon''), (''coordinates'', polygon_tuple (e, hs))]"
            "''Polygon''" "polygon_tuple (e, hs)"]
        polygon_parts_tuple [of "(e, hs)"]
      by (simp add: polygon_tuple_empty lower_class_names coordinate_kind_names_def
          construct_from_coordinates_def)
        (simp add: polygon_tuple_def)
  qed
next
  case (MultiPoint cs)
  then have wf: "list_all wf_coord cs"
    by simp
  show ?case
  proof (cases "cs = []")
    case True
    then show ?thesis
      using shape_short_circuit
        [of "[(''type'', PStr ''MultiPoint''), (''coordinates'', coords_tuple cs)]"
            "''MultiPoint''" "coords_tuple cs"]
      by (simp add: coords_tuple_def lower_class_names empty_shape_for_no_coordinates_def)
  next
    case False
    with wf show ?thesis
      using shape_construct
        [of "[(''type'', PStr ''MultiPoint''), (''coordinates'', coords_tuple cs)]"
            "''MultiPoint''" "coords_tuple cs"]
      by (simp add: coords_tuple_empty as_coords_tuple lower_class_names
          coordinate_kind_names_def construct_from_coordinates_def)
  qed
next
  case (MultiLineString ls)
  then have wf: "list_all wf_line ls" and part: "ls = [] \<or> list_ex (\<lambda>l. l \<noteq> []) ls"
    by simp_all
  let ?c = "PTuple (map coords_tuple ls)"
  show ?case
  proof (cases "ls = []")
    case True
    then show ?thesis
      using shape_short_circuit
        [of "[(''type'', PStr ''MultiLineString''), (''coordinates'', ?c)]"
            "''MultiLineString''" ?c]
      by (simp add: lower_class_names empty_shape_for_no_coordinates_def)
  next
    case False
    with part have "\<not> list_all (\<lambda>l. l = []) ls"
      by (auto simp: list_all_iff list_ex_iff)
    then have ne: "is_coordinates_empty ?c = Inr False"
      by (simp only: lines_tuple_empty [OF wf])
    from wf have "sequence_sum (map (as_coords \<circ> coords_tuple) ls) = Inr ls"
      by (intro sequence_sum_map_Inr) (simp add: as_coords_tuple wf_line_def list_all_iff)
    with ne show ?thesis
      using shape_construct
        [of "[(''type'', PStr ''MultiLineString''), (''coordinates'', ?c)]"
            "''MultiLineString''" ?c]
      by (simp add: lower_class_names coordinate_kind_names_def
          construct_from_coordinates_def)
  qed
next
  case (MultiPolygon ps)
  then have wf: "list_all wf_polygon ps" and part: "ps = [] \<or> list_ex (\<lambda>p. fst p \<noteq> []) ps"
    by simp_all
  let ?c = "PTuple (map polygon_tuple ps)"
  show ?case
  proof (cases "ps = []")
    case True
    then show ?thesis
      using shape_short_circuit
        [of "[(''type'', PStr ''MultiPolygon''), (''coordinates'', ?c)]"
            "''MultiPolygon''" ?c]
      by (simp add: lower_class_names empty_shape_for_no_coordinates_def)
  next
    case False
    with part have "\<not> list_all (\<lambda>p. fst p = []) ps"
      by (auto simp: list_all_iff list_ex_iff)
    then have ne: "is_coordinates_empty ?c = Inr False"
      by (simp only: polygons_tuple_empty [OF wf])
    from wf have "sequence_sum (map (geojson_polygon \<circ> polygon_tuple) ps) = Inr ps"
      by (intro sequence_sum_map_Inr) (simp add: geojson_polygon_tuple list_all_iff)
    with ne show ?thesis
      using shape_construct
        [of "[(''type'', PStr ''MultiPolygon''), (''coordinates'', ?c)]"
            "''MultiPolygon''" ?c]
      by (simp add: lower_class_names coordinate_kind_names_def
          construct_from_coordinates_def)
  qed
next
  case (GeometryCollection gs)
  then have "sequence_sum (map (shape \<circ> geo_interface) gs) = Inr gs"
    by (intro sequence_sum_map_Inr) (simp add: list_all_iff)
  then show ?case
    using shape_collection
      [of "[(''type'', PStr ''GeometryCollection''),
            (''geometries'', PList (map geo_interface gs))]" "''GeometryCollection''"]
    by (simp add: lower_class_names)
qed

lemma geo_interface_dict: "\<exists>kvs. geo_interface g = PDict kvs"
  by (cases g) simp_all

subsection \<open>The empty-coordinates test\<close>

text \<open>
  C3, as the code has it. \<open>_is_coordinates_empty(None)\<close> is true; a sequence of length
  zero is empty; a sequence with elements is empty exactly when every element is,
  recursively; a value that is neither \<open>None\<close> nor a sequence nor an array is not empty.
  In particular \<open>[]\<close> and \<open>[[], []]\<close> are empty and \<open>[[0, 1]]\<close> is not. The function
  returns a boolean on every finite nesting of lists, tuples and arrays in which no
  zero-dimensional numpy array is nested and which is nested less deep than the
  interpreter has room for nested calls. It is not total over all inputs: a
  zero-dimensional array is an \<open>ndarray\<close>, so the sequence branch is taken, and \<open>len\<close>
  raises \<open>TypeError\<close> on it; and the recursion is not guarded, so that a nesting deeper
  than the room for calls ends in \<open>RecursionError\<close>, as does a nesting that is not
  finite, such as a list that contains itself.
\<close>

theorem is_coordinates_empty_rules:
  "is_coordinates_empty PNone = Inr True
   \<and> (\<forall>v. is_sequence v \<and> elements v = [] \<longrightarrow> is_coordinates_empty v = Inr True)
   \<and> (\<forall>v. is_sequence v \<and> elements v \<noteq> [] \<longrightarrow>
          (is_coordinates_empty v = Inr True
           \<longleftrightarrow> list_all (\<lambda>x. is_coordinates_empty x = Inr True) (elements v)))
   \<and> (\<forall>v. v \<noteq> PNone \<and> \<not> is_sequence v \<and> unsized_free v \<longrightarrow>
          is_coordinates_empty v = Inr False)
   \<and> (\<forall>n v. unsized_free v \<and> nesting_depth v < n \<longrightarrow>
          (\<exists>b. is_coordinates_empty_limited n v = Inr b \<and> is_coordinates_empty v = Inr b))
   \<and> is_coordinates_empty (PList []) = Inr True
   \<and> is_coordinates_empty (PList [PList [], PList []]) = Inr True
   \<and> is_coordinates_empty (PList [PList [PNum 0, PNum 1]]) = Inr False"
proof -
  have zero: "is_coordinates_empty v = Inr True" if "is_sequence v \<and> elements v = []" for v
    using that by (cases v) simp_all
  have rec: "is_coordinates_empty v = Inr True
             \<longleftrightarrow> list_all (\<lambda>x. is_coordinates_empty x = Inr True) (elements v)"
    if "is_sequence v \<and> elements v \<noteq> []" for v
    using that by (cases v) (simp_all add: all_coordinates_empty_True)
  have scalar: "is_coordinates_empty v = Inr False"
    if "v \<noteq> PNone \<and> \<not> is_sequence v \<and> unsized_free v" for v
    using that by (cases v) simp_all
  have total: "\<exists>b. is_coordinates_empty_limited n v = Inr b \<and> is_coordinates_empty v = Inr b"
    if "unsized_free v \<and> nesting_depth v < n" for n v
    using that is_coordinates_empty_total(1) [of v] by (auto simp: enough_depth(1))
  show ?thesis
    using zero rec scalar total by simp
qed

theorem is_coordinates_empty_rules_witness:
  "is_sequence (PTuple [PTuple [], PNum 1]) \<and> elements (PTuple [PTuple [], PNum 1]) \<noteq> []
   \<and> unsized_free (PTuple [PTuple [], PNum 1])
   \<and> nesting_depth (PTuple [PTuple [], PNum 1]) < Suc (Suc (Suc 0))
   \<and> (is_coordinates_empty (PTuple [PTuple [], PNum 1]) = Inr True
        \<longleftrightarrow> list_all (\<lambda>x. is_coordinates_empty x = Inr True) [PTuple [], PNum 1])
   \<and> is_coordinates_empty (PTuple [PTuple [], PNum 1]) = Inr False
   \<and> is_coordinates_empty_limited (Suc (Suc (Suc 0))) (PTuple [PTuple [], PNum 1]) = Inr False
   \<and> is_coordinates_empty_limited (Suc (Suc 0)) (PList [PList [PList []]]) = Inl RecursionError"
proof -
  let ?v = "PTuple [PTuple [], PNum 1]"
  have "is_coordinates_empty ?v = Inr True
        \<longleftrightarrow> list_all (\<lambda>x. is_coordinates_empty x = Inr True) (elements ?v)"
    using is_coordinates_empty_rules
      [THEN conjunct2, THEN conjunct2, THEN conjunct1, rule_format, of ?v]
    by simp
  moreover have "\<exists>b. is_coordinates_empty_limited (Suc (Suc (Suc 0))) ?v = Inr b
                     \<and> is_coordinates_empty ?v = Inr b"
    using is_coordinates_empty_rules
      [THEN conjunct2, THEN conjunct2, THEN conjunct2, THEN conjunct2, THEN conjunct1,
       rule_format, of ?v "Suc (Suc (Suc 0))"]
    by simp
  ultimately show ?thesis
    by simp
qed

text \<open>
  The claim as the specification states it, total over all inputs, fails on the
  zero-dimensional array \<open>np.array(5.0)\<close>.
\<close>

theorem is_coordinates_empty_unsized_array_counterexample:
  "is_coordinates_empty (PArray0 (PNum 5)) = Inl TypeError"
  by simp

text \<open>
  C10. Every value other than \<open>None\<close> that is not a list, a tuple or a numpy array is
  reported as not empty, whatever it holds: the empty string and the empty dict are not
  empty. With such a value under \<open>coordinates\<close>, \<open>shape\<close> does not return the empty
  geometry of the kind but goes on to the construction of the kind from that value.
\<close>

theorem non_sequence_coordinates_not_empty:
  "(\<forall>v. v \<noteq> PNone \<and> \<not> is_list_or_tuple v \<and> \<not> is_numpy_array v \<longrightarrow>
        is_coordinates_empty v = Inr False)
   \<and> is_coordinates_empty (PStr []) = Inr False
   \<and> is_coordinates_empty (PDict []) = Inr False
   \<and> (\<forall>kvs t v. map_of kvs ''type'' = Some (PStr t) \<and> map_of kvs ''coordinates'' = Some v
          \<and> v \<noteq> PNone \<and> \<not> is_list_or_tuple v \<and> \<not> is_numpy_array v
          \<and> lower t \<in> set coordinate_kind_names \<longrightarrow>
        shape (PDict kvs) = construct_from_coordinates (lower t) v)"
proof -
  have ne: "is_coordinates_empty v = Inr False"
    if "v \<noteq> PNone \<and> \<not> is_list_or_tuple v \<and> \<not> is_numpy_array v" for v
    using that by (cases v) simp_all
  then show ?thesis
    by (auto intro: shape_construct)
qed

theorem non_sequence_coordinates_not_empty_witness:
  "PStr [] \<noteq> PNone \<and> \<not> is_list_or_tuple (PStr []) \<and> \<not> is_numpy_array (PStr [])
   \<and> map_of [(''type'', PStr ''Point''), (''coordinates'', PStr [])] ''type'' = Some (PStr ''Point'')
   \<and> map_of [(''type'', PStr ''Point''), (''coordinates'', PStr [])] ''coordinates'' = Some (PStr [])
   \<and> lower ''Point'' \<in> set coordinate_kind_names
   \<and> shape (PDict [(''type'', PStr ''Point''), (''coordinates'', PStr [])])
       = Inl ConstructionError
   \<and> empty_shape_for_no_coordinates (lower ''Point'') = Inr (Point [])"
proof -
  have l: "lower ''Point'' = ''point''"
    by code_simp
  have "shape (PDict [(''type'', PStr ''Point''), (''coordinates'', PStr [])])
          = construct_from_coordinates (lower ''Point'') (PStr [])"
    using non_sequence_coordinates_not_empty
      [THEN conjunct2, THEN conjunct2, THEN conjunct2, rule_format,
       of "[(''type'', PStr ''Point''), (''coordinates'', PStr [])]" "''Point''" "PStr []"]
    by (simp add: l coordinate_kind_names_def)
  then show ?thesis
    by (simp add: l coordinate_kind_names_def construct_from_coordinates_def
        empty_shape_for_no_coordinates_def as_coord_def)
qed

subsection \<open>The empty geometry of a kind\<close>

text \<open>
  C1, as the code has it. For each of the six kind names that carry coordinates (point,
  linestring, polygon, multipoint, multilinestring, multipolygon),
  \<open>_empty_shape_for_no_coordinates\<close> returns a geometry that has no coordinates and
  whose kind is the one named. The helper has no branch for \<open>geometrycollection\<close>, the
  seventh name \<open>shape\<close> knows, whose mappings carry \<open>geometries\<close> and not
  \<open>coordinates\<close>.
\<close>

theorem empty_shape_for_coordinate_kinds:
  assumes "k \<in> set coordinate_kind_names"
  shows "\<exists>g. empty_shape_for_no_coordinates k = Inr g
             \<and> coordinates_of g = [] \<and> lower (geom_type_of g) = k"
  using assms
  by (auto simp: coordinate_kind_names_def empty_shape_for_no_coordinates_def
      lower_class_names)

theorem empty_shape_for_coordinate_kinds_witness:
  "''polygon'' \<in> set coordinate_kind_names
   \<and> empty_shape_for_no_coordinates ''polygon'' = Inr (Polygon [] [])
   \<and> coordinates_of (Polygon [] []) = []
   \<and> lower (geom_type_of (Polygon [] [])) = ''polygon''"
  using empty_shape_for_coordinate_kinds [of "''polygon''"]
  by (auto simp: coordinate_kind_names_def empty_shape_for_no_coordinates_def)

text \<open>
  The claim as the specification states it, for all seven names, fails on
  \<open>geometrycollection\<close>: the helper raises \<open>ValueError\<close>.
\<close>

theorem empty_shape_geometrycollection_counterexample:
  "empty_shape_for_no_coordinates ''geometrycollection''
     = Inl (ValueError ''Unknown geometry type: geometrycollection'')"
  by (simp add: empty_shape_for_no_coordinates_def)

subsection \<open>Dispatch in \<open>shape\<close>\<close>

text \<open>
  C2. When the mapping has a \<open>coordinates\<close> key whose value is empty according to
  \<open>_is_coordinates_empty\<close>, \<open>shape\<close> returns \<open>_empty_shape_for_no_coordinates\<close> of the
  lower-cased \<open>type\<close> value, whatever the kind is and whatever else the mapping holds;
  the same for an object whose \<open>__geo_interface__\<close> is that mapping.
\<close>

theorem shape_empty_coordinates:
  assumes "map_of kvs ''type'' = Some (PStr t)"
    and "map_of kvs ''coordinates'' = Some c"
    and "is_coordinates_empty c = Inr True"
  shows "shape (PDict kvs) = empty_shape_for_no_coordinates (lower t)
         \<and> shape (PObj (PDict kvs)) = empty_shape_for_no_coordinates (lower t)"
  using assms by (simp add: shape_PObj shape_short_circuit)

theorem shape_empty_coordinates_witness:
  "map_of [(''type'', PStr ''Polygon''), (''coordinates'', PList [PList []])] ''type''
     = Some (PStr ''Polygon'')
   \<and> map_of [(''type'', PStr ''Polygon''), (''coordinates'', PList [PList []])] ''coordinates''
     = Some (PList [PList []])
   \<and> is_coordinates_empty (PList [PList []]) = Inr True
   \<and> shape (PDict [(''type'', PStr ''Polygon''), (''coordinates'', PList [PList []])])
     = Inr (Polygon [] [])"
  using shape_empty_coordinates
    [of "[(''type'', PStr ''Polygon''), (''coordinates'', PList [PList []])]"
        "''Polygon''" "PList [PList []]"]
  by (simp add: lower_class_names empty_shape_for_no_coordinates_def)

text \<open>
  C9. On a mapping without a \<open>type\<close> key the lookup yields \<open>None\<close> and \<open>.lower()\<close>
  raises \<open>AttributeError\<close>: \<open>shape\<close> fails with that error, not with the \<open>ValueError\<close>
  of an unknown geometry type, and returns no geometry.
\<close>

theorem shape_without_type:
  assumes "map_of kvs ''type'' = None"
  shows "shape (PDict kvs) = Inl AttributeError
         \<and> shape (PObj (PDict kvs)) = Inl AttributeError"
  using assms by (simp add: shape_PObj shape_no_type_string)

theorem shape_without_type_witness:
  "map_of [(''coordinates'', PList [PNum 0, PNum 1])] ''type'' = None
   \<and> shape (PDict [(''coordinates'', PList [PNum 0, PNum 1])]) = Inl AttributeError"
  using shape_without_type [of "[(''coordinates'', PList [PNum 0, PNum 1])]"]
  by simp

text \<open>
  C4. For a string \<open>s\<close> that, lower-cased, is none of the seven kind names,
  \<open>_empty_shape_for_no_coordinates(s)\<close> raises \<open>ValueError\<close> with the message
  \<open>Unknown geometry type:\<close> followed by \<open>s\<close>, and \<open>shape\<close> on a mapping of type \<open>s\<close>
  with coordinates that are not empty raises \<open>ValueError\<close> with that message followed
  by \<open>s\<close> lower-cased.
\<close>

theorem unknown_geometry_type:
  assumes "lower s \<notin> set kind_names"
  shows "empty_shape_for_no_coordinates s = Inl (ValueError (''Unknown geometry type: '' @ s))
         \<and> (\<forall>kvs c. map_of kvs ''type'' = Some (PStr s)
                \<and> map_of kvs ''coordinates'' = Some c
                \<and> is_coordinates_empty c = Inr False \<longrightarrow>
              shape (PDict kvs) = Inl (ValueError (''Unknown geometry type: '' @ lower s)))"
proof -
  have "s \<notin> set coordinate_kind_names"
    using assms lower_kind_names
    by (auto simp: kind_names_def coordinate_kind_names_def)
  then have "empty_shape_for_no_coordinates s
               = Inl (ValueError (''Unknown geometry type: '' @ s))"
    by (simp add: coordinate_kind_names_def empty_shape_for_no_coordinates_def)
  moreover have "shape (PDict kvs) = Inl (ValueError (''Unknown geometry type: '' @ lower s))"
    if "map_of kvs ''type'' = Some (PStr s) \<and> map_of kvs ''coordinates'' = Some c
        \<and> is_coordinates_empty c = Inr False" for kvs c
    using that assms by (intro shape_unknown_type) auto
  ultimately show ?thesis
    by blast
qed

theorem unknown_geometry_type_witness:
  "lower ''Circle'' \<notin> set kind_names
   \<and> empty_shape_for_no_coordinates ''Circle''
       = Inl (ValueError ''Unknown geometry type: Circle'')
   \<and> is_coordinates_empty (PList [PNum 0, PNum 1]) = Inr False
   \<and> shape (PDict [(''type'', PStr ''Circle''), (''coordinates'', PList [PNum 0, PNum 1])])
       = Inl (ValueError ''Unknown geometry type: circle'')"
proof -
  have l: "lower ''Circle'' = ''circle''"
    by code_simp
  have n: "lower ''Circle'' \<notin> set kind_names"
    by (simp add: l kind_names_def)
  show ?thesis
    using unknown_geometry_type [OF n] n
      unknown_geometry_type [OF n, THEN conjunct2, rule_format,
        of "[(''type'', PStr ''Circle''), (''coordinates'', PList [PNum 0, PNum 1])]"
           "PList [PNum 0, PNum 1]"]
    by (simp add: l)
qed

text \<open>
  C5, as the code has it. \<open>shape\<close> matches the type name case-insensitively: on two
  mappings that differ only in the case of the \<open>type\<close> value it gives the same result,
  geometry or error. \<open>_empty_shape_for_no_coordinates\<close> compares its argument with the
  lower-case names as it is, and raises \<open>ValueError\<close> on every string that lower-casing
  changes; \<open>shape\<close> lower-cases the name before it calls the helper.
\<close>

theorem shape_type_case_insensitive:
  "(\<forall>s s' kvs. lower s' = lower s \<longrightarrow>
       shape (PDict (AList.update ''type'' (PStr s') kvs))
         = shape (PDict (AList.update ''type'' (PStr s) kvs)))
   \<and> (\<forall>s. lower s \<noteq> s \<longrightarrow>
         empty_shape_for_no_coordinates s
           = Inl (ValueError (''Unknown geometry type: '' @ s)))"
proof -
  have "shape (PDict (AList.update ''type'' (PStr s') kvs))
          = shape (PDict (AList.update ''type'' (PStr s) kvs))"
    if "lower s' = lower s" for s s' kvs
    apply (simp only: shape.simps [of "PDict (AList.update ''type'' (PStr s') kvs)"]
        shape.simps [of "PDict (AList.update ''type'' (PStr s) kvs)"] Let_def pyval.case)
    apply (unfold lookup_update_type option.case pyval.case that)
    apply (rule refl)
    done
  moreover have "empty_shape_for_no_coordinates s
                   = Inl (ValueError (''Unknown geometry type: '' @ s))"
    if "lower s \<noteq> s" for s
  proof -
    from that have "s \<notin> set coordinate_kind_names"
      using lower_kind_names by (auto simp: coordinate_kind_names_def)
    then show ?thesis
      by (simp add: coordinate_kind_names_def empty_shape_for_no_coordinates_def)
  qed
  ultimately show ?thesis
    by blast
qed

theorem shape_type_case_insensitive_witness:
  "lower ''POINT'' = lower ''point'' \<and> lower ''POINT'' \<noteq> ''POINT''
   \<and> shape (PDict (AList.update ''type'' (PStr ''POINT'') [(''coordinates'', PList [PNum 0, PNum 1])]))
       = shape (PDict (AList.update ''type'' (PStr ''point'') [(''coordinates'', PList [PNum 0, PNum 1])]))
   \<and> empty_shape_for_no_coordinates ''POINT'' = Inl (ValueError ''Unknown geometry type: POINT'')"
proof -
  have l: "lower ''POINT'' = ''point''"
    by code_simp
  show ?thesis
    using shape_type_case_insensitive
      [THEN conjunct1, rule_format, of "''POINT''" "''point''"
         "[(''coordinates'', PList [PNum 0, PNum 1])]"]
      shape_type_case_insensitive [THEN conjunct2, rule_format, of "''POINT''"]
    by (simp add: l lower_kind_names)
qed

text \<open>
  The claim as the specification states it, that the helper behaves identically on
  case variants, fails on \<open>POINT\<close> and \<open>point\<close>.
\<close>

theorem empty_shape_case_sensitive_counterexample:
  "lower ''POINT'' = lower ''point''
   \<and> empty_shape_for_no_coordinates ''POINT'' \<noteq> empty_shape_for_no_coordinates ''point''"
proof -
  have "lower ''POINT'' = lower ''point''"
    by code_simp
  then show ?thesis
    by (simp add: empty_shape_for_no_coordinates_def)
qed

subsection \<open>The box\<close>

text \<open>
  C6. For all bounds, \<open>box\<close> builds the corners \<open>(maxx, miny)\<close>, \<open>(maxx, maxy)\<close>,
  \<open>(minx, maxy)\<close>, \<open>(minx, miny)\<close> in this order when \<open>ccw\<close> is true and in the
  reversed order when it is false, and returns the polygon constructed from that ring,
  without interior rings. No bound is compared with another: a polygon is returned for
  all bounds. For \<open>box(0, 0, 2, 1)\<close> the ring is \<open>(2,0), (2,1), (0,1), (0,0)\<close>, and its
  reverse when \<open>ccw\<close> is false.
\<close>

theorem box_ring:
  "box_coords minx miny maxx maxy True
     = [PTuple [PNum maxx, PNum miny], PTuple [PNum maxx, PNum maxy],
        PTuple [PNum minx, PNum maxy], PTuple [PNum minx, PNum miny]]
   \<and> box_coords minx miny maxx maxy False = rev (box_coords minx miny maxx maxy True)
   \<and> box minx miny maxx maxy ccw
       = new_Polygon (Some (PList (box_coords minx miny maxx maxy ccw))) None
   \<and> box minx miny maxx maxy True
       = Inr (Polygon (close_ring [[maxx, miny], [maxx, maxy], [minx, maxy], [minx, miny]]) [])
   \<and> box minx miny maxx maxy False
       = Inr (Polygon (close_ring [[minx, miny], [minx, maxy], [maxx, maxy], [maxx, miny]]) [])
   \<and> box_coords 0 0 2 1 True
       = [PTuple [PNum 2, PNum 0], PTuple [PNum 2, PNum 1],
          PTuple [PNum 0, PNum 1], PTuple [PNum 0, PNum 0]]
   \<and> box_coords 0 0 2 1 False
       = [PTuple [PNum 0, PNum 0], PTuple [PNum 0, PNum 1],
          PTuple [PNum 2, PNum 1], PTuple [PNum 2, PNum 0]]"
  by (simp add: box_def box_coords_def polygon_parts_def as_ring_def as_coords_def
      as_coord_def)

theorem box_ring_witness:
  "box 0 0 2 1 True = Inr (Polygon [[2, 0], [2, 1], [0, 1], [0, 0], [2, 0]] [])
   \<and> box 0 0 2 1 False = Inr (Polygon [[0, 0], [0, 1], [2, 1], [2, 0], [0, 0]] [])
   \<and> box 1 1 0 0 True = Inr (Polygon [[0, 1], [0, 0], [1, 0], [1, 1], [0, 1]] [])"
proof -
  note ccw = conjunct2 [THEN conjunct2, THEN conjunct2, THEN conjunct1]
    and cw = conjunct2 [THEN conjunct2, THEN conjunct2, THEN conjunct2, THEN conjunct1]
  show ?thesis
    using box_ring [of 0 0 2 1, THEN ccw] box_ring [of 0 0 2 1, THEN cw]
      box_ring [of 1 1 0 0, THEN ccw]
    by (simp add: close_ring_def)
qed

subsection \<open>Geometry collections\<close>

text \<open>
  C7. On a mapping whose lower-cased type is \<open>geometrycollection\<close> and whose
  \<open>coordinates\<close>, if there are any, are not empty, \<open>shape\<close> applies itself to each
  entry of the \<open>geometries\<close> sequence, the empty sequence when the key is absent, and
  returns the collection of the results, or the first error among them.
\<close>

theorem shape_geometrycollection:
  assumes "map_of kvs ''type'' = Some (PStr t)"
    and "lower t = ''geometrycollection''"
    and "map_of kvs ''coordinates'' = None
         \<or> (\<exists>c. map_of kvs ''coordinates'' = Some c \<and> is_coordinates_empty c = Inr False)"
  shows "shape (PDict kvs) =
           (case py_iter (case map_of kvs ''geometries'' of None \<Rightarrow> PList [] | Some v \<Rightarrow> v) of
              Inl e \<Rightarrow> Inl e
            | Inr gs \<Rightarrow>
                (case sequence_sum (map shape gs) of
                   Inl e \<Rightarrow> Inl e
                 | Inr geoms \<Rightarrow> Inr (GeometryCollection geoms)))
         \<and> (map_of kvs ''geometries'' = None \<longrightarrow> shape (PDict kvs) = Inr (GeometryCollection []))
         \<and> (\<forall>v gs geoms. map_of kvs ''geometries'' = Some v \<and> py_iter v = Inr gs
                \<and> list_all2 (\<lambda>g r. shape g = Inr r) gs geoms \<longrightarrow>
              shape (PDict kvs) = Inr (GeometryCollection geoms))"
proof -
  note eq = shape_collection [OF assms]
  have "shape (PDict kvs) = Inr (GeometryCollection [])" if "map_of kvs ''geometries'' = None"
    using that by (simp add: eq)
  moreover have "shape (PDict kvs) = Inr (GeometryCollection geoms)"
    if "map_of kvs ''geometries'' = Some v \<and> py_iter v = Inr gs
        \<and> list_all2 (\<lambda>g r. shape g = Inr r) gs geoms" for v gs geoms
  proof -
    from that have "sequence_sum (map shape gs) = Inr geoms"
      by (intro sequence_sum_all2) simp
    with that show ?thesis
      by (simp add: eq)
  qed
  ultimately show ?thesis
    using eq by blast
qed

theorem shape_geometrycollection_witness:
  "map_of [(''type'', PStr ''GeometryCollection''),
           (''geometries'', PList [PDict [(''type'', PStr ''Point''),
                                         (''coordinates'', PList [PNum 0, PNum 1])],
                                  PDict [(''type'', PStr ''GeometryCollection'')]])]
      ''type'' = Some (PStr ''GeometryCollection'')
   \<and> lower ''GeometryCollection'' = ''geometrycollection''
   \<and> shape (PDict [(''type'', PStr ''GeometryCollection''),
           (''geometries'', PList [PDict [(''type'', PStr ''Point''),
                                         (''coordinates'', PList [PNum 0, PNum 1])],
                                  PDict [(''type'', PStr ''GeometryCollection'')]])])
       = Inr (GeometryCollection [Point [0, 1], GeometryCollection []])"
proof -
  let ?inner = "[(''type'', PStr ''GeometryCollection'')]"
  let ?point = "[(''type'', PStr ''Point''), (''coordinates'', PList [PNum 0, PNum 1])]"
  let ?outer = "[(''type'', PStr ''GeometryCollection''),
                 (''geometries'', PList [PDict ?point, PDict ?inner])]"
  have inner: "shape (PDict ?inner) = Inr (GeometryCollection [])"
    using shape_geometrycollection [of ?inner "''GeometryCollection''"]
    by (simp add: lower_class_names)
  have point: "shape (PDict ?point) = Inr (Point [0, 1])"
    using shape_construct [of ?point "''Point''" "PList [PNum 0, PNum 1]"]
    by (simp add: lower_class_names coordinate_kind_names_def
        construct_from_coordinates_def as_coord_def)
  have "shape (PDict ?outer) = Inr (GeometryCollection [Point [0, 1], GeometryCollection []])"
    using shape_geometrycollection [of ?outer "''GeometryCollection''"]
    by (simp add: lower_class_names inner point)
  then show ?thesis
    by (simp add: lower_class_names)
qed

subsection \<open>Round trip\<close>

text \<open>
  C8. For every well-formed geometry \<open>g\<close> of any of the seven kinds that is not empty,
  \<open>mapping(g)\<close> is its \<open>__geo_interface__\<close> and \<open>shape\<close> applied to it returns a
  geometry equal to \<open>g\<close>, kind and coordinates; \<open>shape(g)\<close> itself does too.
\<close>

theorem shape_mapping_round_trip:
  assumes "wf_geometry g" and "\<not> is_empty g"
  shows "mapping (geometry_object g) = Inr (geo_interface g)
         \<and> shape (geo_interface g) = Inr g
         \<and> shape (geometry_object g) = Inr g"
proof -
  from assms(1) have "shape (geo_interface g) = Inr g"
    by (rule shape_geo_interface)
  moreover obtain kvs where "geo_interface g = PDict kvs"
    using geo_interface_dict by blast
  ultimately show ?thesis
    by (simp add: geometry_object_def shape_PObj)
qed

theorem shape_mapping_round_trip_witness:
  "wf_geometry (GeometryCollection
      [Point [0, 1], Polygon [[0, 0], [0, 1], [1, 1], [0, 0]] []])
   \<and> \<not> is_empty (GeometryCollection
      [Point [0, 1], Polygon [[0, 0], [0, 1], [1, 1], [0, 0]] []])
   \<and> geo_interface (GeometryCollection
      [Point [0, 1], Polygon [[0, 0], [0, 1], [1, 1], [0, 0]] []])
     = PDict [(''type'', PStr ''GeometryCollection''),
         (''geometries'', PList
            [PDict [(''type'', PStr ''Point''), (''coordinates'', PTuple [PNum 0, PNum 1])],
             PDict [(''type'', PStr ''Polygon''),
                (''coordinates'', PTuple [PTuple [PTuple [PNum 0, PNum 0],
                   PTuple [PNum 0, PNum 1], PTuple [PNum 1, PNum 1],
                   PTuple [PNum 0, PNum 0]]])]])]
   \<and> shape (PDict [(''type'', PStr ''GeometryCollection''),
         (''geometries'', PList
            [PDict [(''type'', PStr ''Point''), (''coordinates'', PTuple [PNum 0, PNum 1])],
             PDict [(''type'', PStr ''Polygon''),
                (''coordinates'', PTuple [PTuple [PTuple [PNum 0, PNum 0],
                   PTuple [PNum 0, PNum 1], PTuple [PNum 1, PNum 1],
                   PTuple [PNum 0, PNum 0]]])]])])
     = Inr (GeometryCollection
         [Point [0, 1], Polygon [[0, 0], [0, 1], [1, 1], [0, 0]] []])"
proof -
  let ?g = "GeometryCollection [Point [0, 1], Polygon [[0, 0], [0, 1], [1, 1], [0, 0]] []]"
  have wf: "wf_geometry ?g"
    by (simp add: wf_coord_def wf_ring_def wf_polygon_def)
  have ne: "\<not> is_empty ?g"
    by (simp add: is_empty_def)
  have gi: "geo_interface ?g
     = PDict [(''type'', PStr ''GeometryCollection''),
         (''geometries'', PList
            [PDict [(''type'', PStr ''Point''), (''coordinates'', PTuple [PNum 0, PNum 1])],
             PDict [(''type'', PStr ''Polygon''),
                (''coordinates'', PTuple [PTuple [PTuple [PNum 0, PNum 0],
                   PTuple [PNum 0, PNum 1], PTuple [PNum 1, PNum 1],
                   PTuple [PNum 0, PNum 0]]])]])]"
    by (simp add: coord_tuple_def coords_tuple_def polygon_tuple_def)
  show ?thesis
    using shape_mapping_round_trip [OF wf ne] wf ne
    by (simp only: gi) simp
qed

end
